theory Spec2Isabelle
  imports Main
begin

section \<open>JavaScript values used by the worker\<close>

text \<open>
  A JavaScript string is represented by its UTF-8 encoding, a \<^typ>\<open>string\<close> (list of
  bytes). That is the form in which Workers KV stores keys and values and in which
  \<^verbatim>\<open>encodeURIComponent\<close> escapes them; ASCII literals of the source are written as they
  are, the non-ASCII ones as their bytes.

  The numbers the rate limiter computes with are integers or \<^verbatim>\<open>NaN\<close> (the result of
  \<^verbatim>\<open>parseInt\<close> on a string without a leading numeral). \<open>Num n\<close> stands for the double
  with the integer value \<open>n\<close>; the arithmetic below is the arithmetic of doubles as long
  as the values stay below \<open>2^53\<close> in magnitude. Every counter the limiter itself writes
  is between 1 and the limit. Negative zero is identified with zero: the code never
  divides by a count nor prints one without adding 1 first.
\<close>

datatype number = Num int | NaN

fun js_ge :: "number \<Rightarrow> number \<Rightarrow> bool" where
  "js_ge (Num a) (Num b) = (a \<ge> b)"
| "js_ge _ _ = False"

fun js_plus :: "number \<Rightarrow> number \<Rightarrow> number" where
  "js_plus (Num a) (Num b) = Num (a + b)"
| "js_plus _ _ = NaN"

fun js_minus :: "number \<Rightarrow> number \<Rightarrow> number" where
  "js_minus (Num a) (Num b) = Num (a - b)"
| "js_minus _ _ = NaN"

subsection \<open>\<^verbatim>\<open>String(n)\<close>: decimal rendering\<close>

definition digit_char :: "nat \<Rightarrow> char" where
  "digit_char d = ''0123456789'' ! d"

fun string_of_nat :: "nat \<Rightarrow> string" where
  "string_of_nat n =
     (if n < 10 then [digit_char n]
      else string_of_nat (n div 10) @ [digit_char (n mod 10)])"

declare string_of_nat.simps [simp del]

definition String_int :: "int \<Rightarrow> string" where
  "String_int n = (if n < 0 then CHR ''-'' # string_of_nat (nat (- n)) else string_of_nat (nat n))"

fun String_number :: "number \<Rightarrow> string" where
  "String_number (Num n) = String_int n"
| "String_number NaN = ''NaN''"

subsection \<open>\<^verbatim>\<open>parseInt(s, 10)\<close>\<close>

text \<open>
  \<^verbatim>\<open>parseInt\<close> first removes leading white space (ECMAScript's \<^verbatim>\<open>StrWhiteSpaceChar\<close>):
  TAB, LF, VT, FF, CR, SP, and in UTF-8 the two-byte U+00A0 and the three-byte U+1680,
  U+2000 to U+200A, U+2028, U+2029, U+202F, U+205F, U+3000 and U+FEFF.
\<close>

definition ws1 :: "char \<Rightarrow> bool" where
  "ws1 c = (of_char c \<in> {9, 10, 11, 12, 13, 32 :: nat})"

definition ws2 :: "char \<Rightarrow> char \<Rightarrow> bool" where
  "ws2 c d = (of_char c = (0xC2 :: nat) \<and> of_char d = (0xA0 :: nat))"

definition ws3 :: "char \<Rightarrow> char \<Rightarrow> char \<Rightarrow> bool" where
  "ws3 c d e =
     (let a = (of_char c :: nat); b = (of_char d :: nat); x = (of_char e :: nat)
      in (a = 0xE1 \<and> b = 0x9A \<and> x = 0x80)
       \<or> (a = 0xE2 \<and> b = 0x80 \<and> (0x80 \<le> x \<and> x \<le> 0x8A \<or> x = 0xA8 \<or> x = 0xA9 \<or> x = 0xAF))
       \<or> (a = 0xE2 \<and> b = 0x81 \<and> x = 0x9F)
       \<or> (a = 0xE3 \<and> b = 0x80 \<and> x = 0x80)
       \<or> (a = 0xEF \<and> b = 0xBB \<and> x = 0xBF))"

fun trimStart :: "string \<Rightarrow> string" where
  "trimStart (c # d # e # cs) =
     (if ws1 c then trimStart (d # e # cs)
      else if ws2 c d then trimStart (e # cs)
      else if ws3 c d e then trimStart cs
      else c # d # e # cs)"
| "trimStart [c, d] =
     (if ws1 c then trimStart [d]
      else if ws2 c d then []
      else [c, d])"
| "trimStart [c] = (if ws1 c then [] else [c])"
| "trimStart [] = []"

definition is_digit :: "char \<Rightarrow> bool" where
  "is_digit c = (48 \<le> (of_char c :: nat) \<and> (of_char c :: nat) \<le> 57)"

definition digits_value :: "string \<Rightarrow> nat" where
  "digits_value ds = foldl (\<lambda>a c. 10 * a + (of_char c - 48)) 0 ds"

definition parseInt10 :: "string \<Rightarrow> number" where
  "parseInt10 inputString =
     (let S = trimStart inputString;
          sign = (if S \<noteq> [] \<and> hd S = CHR ''-'' then - 1 else 1 :: int);
          S' = (if S \<noteq> [] \<and> (hd S = CHR ''+'' \<or> hd S = CHR ''-'') then tl S else S);
          Z = takeWhile is_digit S'
      in if Z = [] then NaN else Num (sign * int (digits_value Z)))"

section \<open>The key-value store\<close>

text \<open>
  \<^verbatim>\<open>KVNamespace\<close>, the binding \<^verbatim>\<open>RATE_LIMIT_KV\<close>: a map from keys to entries, each
  holding the value and the \<^verbatim>\<open>expirationTtl\<close> it was put with, together with the log of
  the operations performed on it, so that a read and a write are both visible. Calls
  are sequential; a read sees the last write. The store removing a key when its TTL
  has run out is the store's own behaviour in real time and is not part of the model.
\<close>

record kv_entry =
  entry_value :: string
  expirationTtl :: int

datatype kv_op = Get string | Put string string int

record KVNamespace =
  store :: "string \<rightharpoonup> kv_entry"
  ops :: "kv_op list"

definition kv_get :: "KVNamespace \<Rightarrow> string \<Rightarrow> string option \<times> KVNamespace" where
  "kv_get kv k = (map_option entry_value (store kv k), kv\<lparr>ops := ops kv @ [Get k]\<rparr>)"

definition kv_put :: "KVNamespace \<Rightarrow> string \<Rightarrow> string \<Rightarrow> int \<Rightarrow> KVNamespace" where
  "kv_put kv k v ttl =
     kv\<lparr>store := (store kv)(k \<mapsto> \<lparr>entry_value = v, expirationTtl = ttl\<rparr>),
        ops := ops kv @ [Put k v ttl]\<rparr>"

definition empty_kv :: KVNamespace where
  "empty_kv = \<lparr>store = Map.empty, ops = []\<rparr>"

section \<open>The rate limiter\<close>

text \<open>
  \<^verbatim>\<open>RATE_LIMIT\<close> is 10 in \<^verbatim>\<open>src/index.ts\<close> and 30 in the two later versions of the file; the
  function is otherwise the same text, so the limit is its first argument here.
  \<^verbatim>\<open>Date.now()\<close> is the argument \<open>date_now\<close> (milliseconds). \<^verbatim>\<open>Math.floor(x / y)\<close> on
  integers is \<open>div\<close>, which rounds down on \<^typ>\<open>int\<close> as well.
\<close>

definition RATE_LIMIT_index :: int where
  "RATE_LIMIT_index = 10"

definition RATE_LIMIT_part_000 :: int where
  "RATE_LIMIT_part_000 = 30"

definition RATE_LIMIT_WINDOW :: int where
  "RATE_LIMIT_WINDOW = 60"

record RateDecision =
  allowed :: bool
  remaining :: number

definition windowKey :: "int \<Rightarrow> int" where
  "windowKey date_now = (let now = date_now div 1000 in now div RATE_LIMIT_WINDOW)"

definition fullKey :: "string \<Rightarrow> int \<Rightarrow> string" where
  "fullKey ip date_now =
     (let key = ''rate_limit:'' @ ip
      in key @ '':'' @ String_int (windowKey date_now))"

text \<open>The expression \<^verbatim>\<open>current ? parseInt(current, 10) : 0\<close>: \<^verbatim>\<open>null\<close> and the empty string are falsy.\<close>

definition count_of :: "string option \<Rightarrow> number" where
  "count_of current =
     (case current of
        None \<Rightarrow> Num 0
      | Some c \<Rightarrow> if c \<noteq> [] then parseInt10 c else Num 0)"

definition checkRateLimit :: "int \<Rightarrow> string \<Rightarrow> KVNamespace \<Rightarrow> int \<Rightarrow> RateDecision \<times> KVNamespace" where
  "checkRateLimit RATE_LIMIT ip kv date_now =
     (let (current, kv1) = kv_get kv (fullKey ip date_now);
          count = count_of current
      in if js_ge count (Num RATE_LIMIT)
         then (\<lparr>allowed = False, remaining = Num 0\<rparr>, kv1)
         else (\<lparr>allowed = True, remaining = js_minus (js_minus (Num RATE_LIMIT) count) (Num 1)\<rparr>,
               kv_put kv1 (fullKey ip date_now) (String_number (js_plus count (Num 1)))
                 RATE_LIMIT_WINDOW))"

text \<open>Sequential calls for one client, one after the other on the same store.\<close>

fun run_calls :: "int \<Rightarrow> string \<Rightarrow> KVNamespace \<Rightarrow> int list \<Rightarrow> RateDecision list \<times> KVNamespace" where
  "run_calls L ip kv [] = ([], kv)"
| "run_calls L ip kv (t # ts) =
     (let (d, kv') = checkRateLimit L ip kv t;
          (ds, kv'') = run_calls L ip kv' ts
      in (d # ds, kv''))"

text \<open>Sequential calls of any clients at any times.\<close>

fun run_requests :: "int \<Rightarrow> KVNamespace \<Rightarrow> (string \<times> int) list \<Rightarrow> KVNamespace" where
  "run_requests L kv [] = kv"
| "run_requests L kv ((ip, t) # rs) = run_requests L (snd (checkRateLimit L ip kv t)) rs"

text \<open>
  The two shapes of a decision, and the count the limiter reads for a key: the value of
  its local \<^verbatim>\<open>count\<close> when \<^verbatim>\<open>fullKey\<close> is \<open>k\<close>.
\<close>

definition denied :: RateDecision where
  "denied = \<lparr>allowed = False, remaining = Num 0\<rparr>"

definition admitted :: "int \<Rightarrow> RateDecision" where
  "admitted r = \<lparr>allowed = True, remaining = Num r\<rparr>"

definition stored_count :: "KVNamespace \<Rightarrow> string \<Rightarrow> number" where
  "stored_count kv k = count_of (map_option entry_value (store kv k))"

text \<open>The counters the limiter itself writes: the decimal numerals of 1 up to the limit.\<close>

definition counters_ok :: "int \<Rightarrow> KVNamespace \<Rightarrow> bool" where
  "counters_ok L kv =
     (\<forall>k e. store kv k = Some e \<longrightarrow> (\<exists>c. entry_value e = String_int c \<and> 1 \<le> c \<and> c \<le> L))"

section \<open>Requests, responses and the outside world\<close>

text \<open>
  A request as the handler reads it: \<^verbatim>\<open>request.method\<close>, \<^verbatim>\<open>url.pathname\<close>, the decoded pairs of
  \<^verbatim>\<open>url.searchParams\<close> in order, and \<^verbatim>\<open>request.headers.get\<close> as a map.
\<close>

record Request =
  req_method :: string
  pathname :: string
  searchParams :: "(string \<times> string) list"
  req_headers :: "string \<rightharpoonup> string"

text \<open>A thrown \<^verbatim>\<open>Error\<close>, with \<^verbatim>\<open>String(err)\<close> as \<^verbatim>\<open>Error.prototype.toString\<close> computes it.\<close>

record js_error =
  err_name :: string
  err_message :: string

definition error_toString :: "js_error \<Rightarrow> string" where
  "error_toString err =
     (if err_name err = [] then err_message err
      else if err_message err = [] then err_name err
      else err_name err @ '': '' @ err_message err)"

text \<open>
  The values given to \<^verbatim>\<open>JSON.stringify\<close>: object literals of strings and numbers, and
  the parsed body of the upstream response, which the handler passes on without looking
  into it (\<open>JData\<close>). A response body is absent, a text, or the text
  \<^verbatim>\<open>JSON.stringify\<close> makes of such a value.
\<close>

datatype 'd json = JStr string | JNum int | JObj "(string \<times> 'd json) list" | JData 'd

datatype 'd body = NoBody | Text string | Json "'d json"

record 'd Response =
  status :: nat
  resp_headers :: "(string \<times> string) list"
  body :: "'d body"

text \<open>
  The upstream response: its status and what \<^verbatim>\<open>resp.json()\<close> gives (the parsed body, or
  the error it throws). \<^verbatim>\<open>resp.ok\<close> is true for a status from 200 to 299. The global
  \<^verbatim>\<open>fetch\<close> is a function from the URL to the response or the error thrown.
\<close>

record 'd UpstreamResponse =
  up_status :: nat
  up_json :: "js_error + 'd"

definition ok :: "'d UpstreamResponse \<Rightarrow> bool" where
  "ok resp = (200 \<le> up_status resp \<and> up_status resp \<le> 299)"

type_synonym 'd upstream = "string \<Rightarrow> js_error + 'd UpstreamResponse"

text \<open>The string literals of the source that are not ASCII, as their UTF-8 bytes.\<close>

definition utf8 :: "nat list \<Rightarrow> string" where
  "utf8 bs = map char_of bs"

definition msg_too_frequent :: string where
  "msg_too_frequent = utf8 [232, 175, 183, 230, 177, 130, 232, 191, 135, 228, 186, 142, 233,
     162, 145, 231, 185, 129, 239, 188, 140, 232, 175, 183, 231, 168, 141, 229, 144, 142, 229,
     134, 141, 232, 175, 149]"

definition msg_upstream_failed :: string where
  "msg_upstream_failed = utf8 [229, 164, 169, 230, 176, 148] @ ''API''
     @ utf8 [232, 175, 183, 230, 177, 130, 229, 164, 177, 232, 180, 165]"

definition msg_internal :: string where
  "msg_internal = utf8 [230, 156, 141, 229, 138, 161, 229, 153, 168, 229, 134, 133, 233, 131,
     168, 233, 148, 153, 232, 175, 175]"

definition msg_config :: string where
  "msg_config = utf8 [230, 156, 141, 229, 138, 161, 229, 153, 168, 233, 133, 141, 231, 189,
     174, 233, 148, 153, 232, 175, 175, 239, 188, 154]"

definition msg_cfg_binding :: string where
  "msg_cfg_binding = msg_config @ ''Secrets Store ''
     @ utf8 [231, 187, 145, 229, 174, 154, 230, 156, 170, 233, 133, 141, 231, 189, 174]"

definition msg_cfg_hint :: string where
  "msg_cfg_hint = utf8 [232, 175, 183, 229, 156, 168] @ '' Cloudflare Dashboard ''
     @ utf8 [228, 184, 173, 233, 133, 141, 231, 189, 174] @ '' Secrets Store ''
     @ utf8 [231, 187, 145, 229, 174, 154, 239, 188, 140, 230, 136, 150, 230, 163, 128, 230,
         159, 165]
     @ '' wrangler.jsonc '' @ utf8 [233, 133, 141, 231, 189, 174]"

definition msg_cfg_type :: string where
  "msg_cfg_type = msg_config @ ''Secrets Store ''
     @ utf8 [231, 187, 145, 229, 174, 154, 231, 177, 187, 229, 158, 139, 228, 184, 141, 230,
         173, 163, 231, 161, 174]"

definition msg_cfg_empty :: string where
  "msg_cfg_empty = msg_config @ ''API Key '' @ utf8 [228, 184, 186, 231, 169, 186]"

definition msg_cfg_get :: string where
  "msg_cfg_get = msg_config @ utf8 [230, 151, 160, 230, 179, 149, 232, 142, 183, 229, 143, 150]
     @ '' API Key''"

definition msg_path :: "string \<Rightarrow> string" where
  "msg_path p = utf8 [232, 183, 175, 229, 190, 132] @ '' '' @ p @ '' ''
     @ utf8 [228, 184, 141, 229, 173, 152, 229, 156, 168]"

section \<open>The helpers of the handler\<close>

definition getClientIP :: "Request \<Rightarrow> string" where
  "getClientIP request =
     (case req_headers request ''CF-Connecting-IP'' of
        None \<Rightarrow> ''unknown''
      | Some v \<Rightarrow> if v \<noteq> [] then v else ''unknown'')"

definition allowedOrigins :: "string list" where
  "allowedOrigins =
     [''http://127.0.0.1:5500'',
      ''http://localhost:5500'',
      ''http://127.0.0.1:3000'',
      ''http://localhost:3000'',
      ''http://127.0.0.1:5173'',
      ''http://localhost:5173'',
      ''http://127.0.0.1:8080'',
      ''http://localhost:8080'']"

definition getCorsHeaders :: "string option \<Rightarrow> (string \<times> string) list" where
  "getCorsHeaders origin =
     (let allowedOrigin =
            (case origin of
               None \<Rightarrow> ''*''
             | Some og \<Rightarrow> if og \<noteq> [] \<and> og \<in> set allowedOrigins then og else ''*'')
      in [(''Access-Control-Allow-Origin'', allowedOrigin),
          (''Access-Control-Allow-Methods'', ''GET, POST, OPTIONS''),
          (''Access-Control-Allow-Headers'', ''Content-Type, Authorization''),
          (''Access-Control-Max-Age'', ''86400'')])"

text \<open>
  \<^verbatim>\<open>encodeURIComponent\<close> on the UTF-8 bytes: letters, digits and \<^verbatim>\<open>-_.!~*'()\<close> stay, every
  other byte becomes \<^verbatim>\<open>%XX\<close> in upper-case hexadecimal. (It throws on a lone surrogate
  only, which has no UTF-8 form, and \<^verbatim>\<open>searchParams\<close> never yields one.)
\<close>

definition unreserved :: "char \<Rightarrow> bool" where
  "unreserved c =
     (let n = (of_char c :: nat)
      in (65 \<le> n \<and> n \<le> 90) \<or> (97 \<le> n \<and> n \<le> 122) \<or> (48 \<le> n \<and> n \<le> 57)
         \<or> c \<in> set ''-_.!~*()'' \<or> n = 39)"

definition hex_char :: "nat \<Rightarrow> char" where
  "hex_char d = ''0123456789ABCDEF'' ! d"

definition encodeURIComponent :: "string \<Rightarrow> string" where
  "encodeURIComponent s =
     concat (map (\<lambda>c. if unreserved c then [c]
                       else [CHR ''%'', hex_char (of_char c div 16), hex_char (of_char c mod 16)]) s)"

text \<open>The expression \<^verbatim>\<open>url.searchParams.get('city') || 'Beijing'\<close>.\<close>

definition city_of :: "Request \<Rightarrow> string" where
  "city_of request =
     (case map_of (searchParams request) ''city'' of
        None \<Rightarrow> ''Beijing''
      | Some c \<Rightarrow> if c \<noteq> [] then c else ''Beijing'')"

definition apiUrl :: "string \<Rightarrow> string \<Rightarrow> string" where
  "apiUrl city apiKey =
     ''https://api.openweathermap.org/data/2.5/weather?q='' @ encodeURIComponent city
       @ ''&appid='' @ apiKey @ ''&units=metric&lang=zh_cn''"

section \<open>The handler of \<^verbatim>\<open>src/index.ts\<close>\<close>

text \<open>
  The handlers return the response, the store after the request and the URLs given to
  the global \<^verbatim>\<open>fetch\<close>, in order. \<^verbatim>\<open>console.log\<close> is not modelled, nor the two readings
  of the clock that only feed it; calls of the store are taken to return. A
  \<^verbatim>\<open>Response\<close> made without a status has status 200.
\<close>

record Env_index =
  WEATHER_API_KEY :: string
  RATE_LIMIT_KV :: KVNamespace

definition fetch_index ::
  "Request \<Rightarrow> Env_index \<Rightarrow> 'd upstream \<Rightarrow> int \<Rightarrow> 'd Response \<times> KVNamespace \<times> string list" where
  "fetch_index request env upstream date_now =
     (let ip = getClientIP request;
          (testValue, kv1) = kv_get (RATE_LIMIT_KV env) ''abc'';
          (decision, kv2) = checkRateLimit RATE_LIMIT_index ip kv1 date_now
      in if \<not> allowed decision then
           (\<lparr>status = 429,
             resp_headers =
               [(''Content-Type'', ''application/json''),
                (''Retry-After'', String_int RATE_LIMIT_WINDOW),
                (''X-RateLimit-Limit'', String_int RATE_LIMIT_index),
                (''X-RateLimit-Remaining'', ''0'')],
             body = Json (JObj [(''error'', JStr msg_too_frequent),
                                (''retryAfter'', JNum RATE_LIMIT_WINDOW)])\<rparr>,
            kv2, [])
         else
           (let city = city_of request;
                url = apiUrl city (WEATHER_API_KEY env)
            in case upstream url of
                 Inl err \<Rightarrow>
                   (\<lparr>status = 500, resp_headers = [],
                     body = Text (''Internal Error: '' @ error_toString err)\<rparr>, kv2, [url])
               | Inr resp \<Rightarrow>
                   if \<not> ok resp then
                     (\<lparr>status = 502, resp_headers = [],
                       body = Text (''Weather API Error: '' @ String_int (int (up_status resp)))\<rparr>,
                      kv2, [url])
                   else
                     (case up_json resp of
                        Inl err \<Rightarrow>
                          (\<lparr>status = 500, resp_headers = [],
                            body = Text (''Internal Error: '' @ error_toString err)\<rparr>, kv2, [url])
                      | Inr data \<Rightarrow>
                          (\<lparr>status = 200,
                            resp_headers =
                              [(''Content-Type'', ''application/json''),
                               (''X-RateLimit-Limit'', String_int RATE_LIMIT_index),
                               (''X-RateLimit-Remaining'', String_number (remaining decision))],
                            body = Json (JData data)\<rparr>, kv2, [url]))))"

section \<open>The first handler of \<^verbatim>\<open>part_000\<close>: path check, rate limiter switched off\<close>

text \<open>
  What \<^verbatim>\<open>env.WEATHER_API_KEY\<close> can be when the handler runs: absent or falsy, a string, a
  Secrets Store binding (given by what its \<^verbatim>\<open>get()\<close> returns or throws), or a value of
  another type (given by its \<^verbatim>\<open>typeof\<close>).
\<close>

datatype api_key_binding =
  Absent
  | KeyString string
  | SecretsStore "js_error + string"
  | OtherType string

record Env_a =
  WEATHER_API_KEY_a :: api_key_binding

definition config_error :: "string option \<Rightarrow> (string \<times> 'd json) list \<Rightarrow> 'd Response" where
  "config_error origin obj =
     \<lparr>status = 500,
      resp_headers = getCorsHeaders origin @ [(''Content-Type'', ''application/json'')],
      body = Json (JObj obj)\<rparr>"

text \<open>
  The part of the handler after the key is resolved, from \<^verbatim>\<open>const allowed = true\<close> on; the
  branch for \<^verbatim>\<open>!allowed\<close> is in the source and cannot be taken.
\<close>

definition forward_a :: "Request \<Rightarrow> string option \<Rightarrow> string \<Rightarrow> 'd upstream \<Rightarrow> 'd Response \<times> string list" where
  "forward_a request origin apiKey upstream =
     (let allowed_a = True;
          remaining_a = Num 100
      in if \<not> allowed_a then
           (\<lparr>status = 429,
             resp_headers = getCorsHeaders origin @
               [(''Content-Type'', ''application/json''),
                (''Retry-After'', String_int RATE_LIMIT_WINDOW),
                (''X-RateLimit-Limit'', String_int RATE_LIMIT_part_000),
                (''X-RateLimit-Remaining'', ''0'')],
             body = Json (JObj [(''error'', JStr msg_too_frequent),
                                (''retryAfter'', JNum RATE_LIMIT_WINDOW)])\<rparr>, [])
         else
           (let city = city_of request;
                url = apiUrl city apiKey
            in case upstream url of
                 Inl err \<Rightarrow>
                   (\<lparr>status = 500,
                     resp_headers = getCorsHeaders origin @ [(''Content-Type'', ''application/json'')],
                     body = Json (JObj [(''error'', JStr msg_internal),
                                        (''message'', JStr (err_message err))])\<rparr>, [url])
               | Inr resp \<Rightarrow>
                   if \<not> ok resp then
                     (\<lparr>status = 502,
                       resp_headers = getCorsHeaders origin @ [(''Content-Type'', ''application/json'')],
                       body = Json (JObj [(''error'', JStr msg_upstream_failed),
                                          (''status'', JNum (int (up_status resp)))])\<rparr>, [url])
                   else
                     (case up_json resp of
                        Inl err \<Rightarrow>
                          (\<lparr>status = 500,
                            resp_headers = getCorsHeaders origin @ [(''Content-Type'', ''application/json'')],
                            body = Json (JObj [(''error'', JStr msg_internal),
                                               (''message'', JStr (err_message err))])\<rparr>, [url])
                      | Inr data \<Rightarrow>
                          (\<lparr>status = 200,
                            resp_headers = getCorsHeaders origin @
                              [(''Content-Type'', ''application/json''),
                               (''X-RateLimit-Limit'', String_int RATE_LIMIT_part_000),
                               (''X-RateLimit-Remaining'', String_number remaining_a)],
                            body = Json (JData data)\<rparr>, [url]))))"

definition fetch_a :: "Request \<Rightarrow> Env_a \<Rightarrow> 'd upstream \<Rightarrow> 'd Response \<times> string list" where
  "fetch_a request env upstream =
     (let origin = req_headers request ''Origin''
      in if req_method request = ''OPTIONS'' then
           (\<lparr>status = 204, resp_headers = getCorsHeaders origin, body = NoBody\<rparr>, [])
         else if pathname request \<noteq> ''/'' then
           (\<lparr>status = 404,
             resp_headers = getCorsHeaders origin @ [(''Content-Type'', ''application/json'')],
             body = Json (JObj [(''error'', JStr ''Not Found''),
                                (''message'', JStr (msg_path (pathname request)))])\<rparr>, [])
         else
           (case WEATHER_API_KEY_a env of
              Absent \<Rightarrow>
                (config_error origin [(''error'', JStr msg_cfg_binding), (''hint'', JStr msg_cfg_hint)], [])
            | KeyString k \<Rightarrow>
                if k = [] then
                  (config_error origin [(''error'', JStr msg_cfg_binding), (''hint'', JStr msg_cfg_hint)], [])
                else forward_a request origin k upstream
            | SecretsStore got \<Rightarrow>
                (case got of
                   Inl err \<Rightarrow>
                     (config_error origin
                        [(''error'', JStr msg_cfg_get), (''message'', JStr (err_message err))], [])
                 | Inr k \<Rightarrow>
                     if k = [] then (config_error origin [(''error'', JStr msg_cfg_empty)], [])
                     else forward_a request origin k upstream)
            | OtherType ty \<Rightarrow>
                (config_error origin [(''error'', JStr msg_cfg_type), (''type'', JStr ty)], [])))"

section \<open>The second handler of \<^verbatim>\<open>part_000\<close>: CORS and the rate limiter\<close>

record Env_b =
  WEATHER_API_KEY_b :: "js_error + string"
  RATE_LIMIT_KV_b :: KVNamespace

definition fetch_b ::
  "Request \<Rightarrow> Env_b \<Rightarrow> 'd upstream \<Rightarrow> int \<Rightarrow> 'd Response \<times> KVNamespace \<times> string list" where
  "fetch_b request env upstream date_now =
     (let ip = getClientIP request;
          origin = req_headers request ''Origin''
      in if req_method request = ''OPTIONS'' then
           (\<lparr>status = 204, resp_headers = getCorsHeaders origin, body = NoBody\<rparr>,
            RATE_LIMIT_KV_b env, [])
         else
           (case WEATHER_API_KEY_b env of
              Inl err \<Rightarrow>
                (config_error origin
                   [(''error'', JStr msg_cfg_get), (''message'', JStr (err_message err))],
                 RATE_LIMIT_KV_b env, [])
            | Inr apiKey \<Rightarrow>
                if apiKey = [] then
                  (config_error origin [(''error'', JStr msg_cfg_empty)], RATE_LIMIT_KV_b env, [])
                else
                  (let (testValue, kv1) = kv_get (RATE_LIMIT_KV_b env) ''abc'';
                       (decision, kv2) = checkRateLimit RATE_LIMIT_part_000 ip kv1 date_now
                   in if \<not> allowed decision then
                        (\<lparr>status = 429,
                          resp_headers = getCorsHeaders origin @
                            [(''Content-Type'', ''application/json''),
                             (''Retry-After'', String_int RATE_LIMIT_WINDOW),
                             (''X-RateLimit-Limit'', String_int RATE_LIMIT_part_000),
                             (''X-RateLimit-Remaining'', ''0'')],
                          body = Json (JObj [(''error'', JStr msg_too_frequent),
                                             (''retryAfter'', JNum RATE_LIMIT_WINDOW)])\<rparr>,
                         kv2, [])
                      else
                        (let city = city_of request;
                             url = apiUrl city apiKey
                         in case upstream url of
                              Inl err \<Rightarrow>
                                (\<lparr>status = 500,
                                  resp_headers = getCorsHeaders origin @
                                    [(''Content-Type'', ''application/json'')],
                                  body = Json (JObj [(''error'', JStr msg_internal),
                                                     (''message'', JStr (err_message err))])\<rparr>,
                                 kv2, [url])
                            | Inr resp \<Rightarrow>
                                if \<not> ok resp then
                                  (\<lparr>status = 502,
                                    resp_headers = getCorsHeaders origin @
                                      [(''Content-Type'', ''application/json'')],
                                    body = Json (JObj [(''error'', JStr msg_upstream_failed),
                                                       (''status'', JNum (int (up_status resp)))])\<rparr>,
                                   kv2, [url])
                                else
                                  (case up_json resp of
                                     Inl err \<Rightarrow>
                                       (\<lparr>status = 500,
                                         resp_headers = getCorsHeaders origin @
                                           [(''Content-Type'', ''application/json'')],
                                         body = Json (JObj [(''error'', JStr msg_internal),
                                                            (''message'', JStr (err_message err))])\<rparr>,
                                        kv2, [url])
                                   | Inr data \<Rightarrow>
                                       (\<lparr>status = 200,
                                         resp_headers = getCorsHeaders origin @
                                           [(''Content-Type'', ''application/json''),
                                            (''X-RateLimit-Limit'', String_int RATE_LIMIT_part_000),
                                            (''X-RateLimit-Remaining'',
                                             String_number (remaining decision))],
                                         body = Json (JData data)\<rparr>,
                                        kv2, [url]))))))"

section \<open>The URL expected for the default city, and example inputs\<close>

definition beijing_url :: "string \<Rightarrow> string" where
  "beijing_url apiKey =
     ''https://api.openweathermap.org/data/2.5/weather?q=Beijing&appid='' @ apiKey
       @ ''&units=metric&lang=zh_cn''"

definition options_request :: Request where
  "options_request =
     \<lparr>req_method = ''OPTIONS'', pathname = ''/'', searchParams = [],
      req_headers = [''Origin'' \<mapsto> ''http://localhost:5173'']\<rparr>"

definition get_request :: Request where
  "get_request =
     \<lparr>req_method = ''GET'', pathname = ''/'', searchParams = [],
      req_headers = [''CF-Connecting-IP'' \<mapsto> ''203.0.113.7'']\<rparr>"

definition get_request_empty_city :: Request where
  "get_request_empty_city =
     \<lparr>req_method = ''GET'', pathname = ''/'', searchParams = [(''city'', [])],
      req_headers = [''CF-Connecting-IP'' \<mapsto> ''203.0.113.7'']\<rparr>"

definition env_index_ex :: Env_index where
  "env_index_ex = \<lparr>WEATHER_API_KEY = ''k1'', RATE_LIMIT_KV = empty_kv\<rparr>"

definition env_a_ex :: Env_a where
  "env_a_ex = \<lparr>WEATHER_API_KEY_a = KeyString ''k1''\<rparr>"

definition env_b_ex :: Env_b where
  "env_b_ex = \<lparr>WEATHER_API_KEY_b = Inr ''k1'', RATE_LIMIT_KV_b = empty_kv\<rparr>"

definition upstream_404 :: "unit upstream" where
  "upstream_404 url =
     Inr \<lparr>up_status = 404, up_json = Inl \<lparr>err_name = ''SyntaxError'', err_message = []\<rparr>\<rparr>"

definition upstream_200 :: "unit upstream" where
  "upstream_200 url = Inr \<lparr>up_status = 200, up_json = Inr ()\<rparr>"

text \<open>A store in which one client has used up the limit of \<^verbatim>\<open>src/index.ts\<close> in window 0.\<close>

definition kv_full :: KVNamespace where
  "kv_full = \<lparr>store = [fullKey ''203.0.113.7'' 0 \<mapsto> \<lparr>entry_value = ''10'', expirationTtl = 60\<rparr>], ops = []\<rparr>"

section \<open>Decimal numerals: printing and reading back\<close>

lemma of_char_digit_char:
  assumes "d < 10"
  shows "(of_char (digit_char d) :: nat) = 48 + d"
proof -
  from assms have "d \<in> {0, 1, 2, 3, 4, 5, 6, 7, 8, 9}" by auto
  then show ?thesis by (auto simp: digit_char_def)
qed

lemma is_digit_digit_char: "d < 10 \<Longrightarrow> is_digit (digit_char d)"
  by (simp add: is_digit_def of_char_digit_char)

lemma string_of_nat_digits: "\<forall>c \<in> set (string_of_nat n). is_digit c"
proof (induction n rule: string_of_nat.induct)
  case (1 n)
  show ?case
  proof (cases "n < 10")
    case True
    then show ?thesis
      by (subst string_of_nat.simps) (simp add: is_digit_digit_char)
  next
    case False
    with 1 show ?thesis
      by (subst string_of_nat.simps) (simp add: is_digit_digit_char)
  qed
qed

lemma string_of_nat_not_Nil: "string_of_nat n \<noteq> []"
  by (subst string_of_nat.simps) simp

lemma digits_value_snoc: "digits_value (ds @ [c]) = 10 * digits_value ds + (of_char c - 48)"
  by (simp add: digits_value_def)

lemma digits_value_string_of_nat: "digits_value (string_of_nat n) = n"
proof (induction n rule: string_of_nat.induct)
  case (1 n)
  show ?case
  proof (cases "n < 10")
    case True
    then show ?thesis
      by (subst string_of_nat.simps) (simp add: digits_value_def of_char_digit_char)
  next
    case False
    with 1 have "digits_value (string_of_nat (n div 10)) = n div 10" by simp
    with False show ?thesis
      by (subst string_of_nat.simps) (simp add: digits_value_snoc of_char_digit_char)
  qed
qed

lemma trimStart_ascii:
  assumes "s \<noteq> []" "\<not> ws1 (hd s)" "(of_char (hd s) :: nat) < 128"
  shows "trimStart s = s"
proof (cases s rule: trimStart.cases)
  case (1 c d e cs)
  with assms show ?thesis by (simp add: ws2_def ws3_def Let_def)
next
  case (2 c d)
  with assms show ?thesis by (simp add: ws2_def)
next
  case (3 c)
  with assms show ?thesis by simp
next
  case 4
  with assms show ?thesis by simp
qed

lemma hd_string_of_nat_digit: "is_digit (hd (string_of_nat n))"
  using string_of_nat_digits [of n] string_of_nat_not_Nil [of n]
  by (cases "string_of_nat n") auto

lemma is_digit_facts: "is_digit c \<Longrightarrow> \<not> ws1 c \<and> (of_char c :: nat) < 128 \<and> c \<noteq> CHR ''-'' \<and> c \<noteq> CHR ''+''"
  by (auto simp: is_digit_def ws1_def)

lemma parseInt10_string_of_nat: "parseInt10 (string_of_nat n) = Num (int n)"
proof -
  let ?s = "string_of_nat n"
  have ne: "?s \<noteq> []" by (rule string_of_nat_not_Nil)
  have d: "is_digit (hd ?s)" by (rule hd_string_of_nat_digit)
  have t: "trimStart ?s = ?s"
    using ne d is_digit_facts [OF d] by (simp add: trimStart_ascii)
  have tw: "takeWhile is_digit ?s = ?s"
    using string_of_nat_digits [of n] by (simp add: takeWhile_eq_all_conv)
  show ?thesis
    using ne is_digit_facts [OF d] 
    by (simp add: parseInt10_def t tw Let_def digits_value_string_of_nat)
qed

lemma parseInt10_minus_string_of_nat: "parseInt10 (CHR ''-'' # string_of_nat n) = Num (- int n)"
proof -
  let ?s = "string_of_nat n"
  have t: "trimStart (CHR ''-'' # ?s) = CHR ''-'' # ?s"
    by (rule trimStart_ascii) (simp_all add: ws1_def)
  have tw: "takeWhile is_digit ?s = ?s"
    using string_of_nat_digits [of n] by (simp add: takeWhile_eq_all_conv)
  show ?thesis
    using string_of_nat_not_Nil [of n]
    by (simp add: parseInt10_def t tw Let_def digits_value_string_of_nat)
qed

lemma parseInt10_String_int: "parseInt10 (String_int n) = Num n"
  by (simp add: String_int_def parseInt10_string_of_nat parseInt10_minus_string_of_nat)

lemma String_int_not_Nil: "String_int n \<noteq> []"
  by (simp add: String_int_def string_of_nat_not_Nil)

lemma String_int_inj:
  assumes "String_int a = String_int b"
  shows "a = b"
proof -
  have "Num a = parseInt10 (String_int a)" by (simp only: parseInt10_String_int)
  also have "\<dots> = parseInt10 (String_int b)" by (simp only: assms)
  also have "\<dots> = Num b" by (simp only: parseInt10_String_int)
  finally show ?thesis by simp
qed

section \<open>One call of the limiter\<close>

lemma fullKey_window: "windowKey t = windowKey t' \<Longrightarrow> fullKey ip t = fullKey ip t'"
  by (simp add: fullKey_def)

lemma fullKey_inj_window: "fullKey ip t = fullKey ip t' \<Longrightarrow> windowKey t = windowKey t'"
  by (simp add: fullKey_def String_int_inj)

lemma checkRateLimit_denied:
  assumes "js_ge (stored_count kv (fullKey ip t)) (Num L)"
  shows "checkRateLimit L ip kv t = (denied, kv\<lparr>ops := ops kv @ [Get (fullKey ip t)]\<rparr>)"
  using assms by (simp add: checkRateLimit_def kv_get_def stored_count_def denied_def)

lemma checkRateLimit_admitted:
  assumes "stored_count kv (fullKey ip t) = Num c" and "c < L"
  shows "checkRateLimit L ip kv t =
           (admitted (L - c - 1),
            kv_put (kv\<lparr>ops := ops kv @ [Get (fullKey ip t)]\<rparr>) (fullKey ip t) (String_int (c + 1))
              RATE_LIMIT_WINDOW)"
  using assms by (simp add: checkRateLimit_def kv_get_def stored_count_def admitted_def)

lemma stored_count_put_same:
  "stored_count (kv_put kv k (String_int n) ttl) k = Num n"
  by (simp add: stored_count_def kv_put_def count_of_def String_int_not_Nil parseInt10_String_int)

lemma stored_count_put_other:
  "k' \<noteq> k \<Longrightarrow> stored_count (kv_put kv k v ttl) k' = stored_count kv k'"
  by (simp add: stored_count_def kv_put_def)

lemma stored_count_ops [simp]: "stored_count (kv\<lparr>ops := x\<rparr>) k = stored_count kv k"
  by (simp add: stored_count_def)

lemma fst_run_calls_Cons:
  "fst (run_calls L ip kv (t # ts)) =
     fst (checkRateLimit L ip kv t) # fst (run_calls L ip (snd (checkRateLimit L ip kv t)) ts)"
  by (simp add: split_def Let_def)

lemma snd_run_calls_Cons:
  "snd (run_calls L ip kv (t # ts)) = snd (run_calls L ip (snd (checkRateLimit L ip kv t)) ts)"
  by (simp add: split_def Let_def)

lemma run_calls_counter:
  assumes "\<forall>t \<in> set ts. fullKey ip t = k" and "stored_count kv k = Num c" and "i < length ts"
  shows "fst (run_calls L ip kv ts) ! i =
           (if L \<le> c + int i then denied else admitted (L - c - int i - 1))"
  using assms
proof (induction ts arbitrary: kv c i)
  case Nil
  then show ?case by simp
next
  case (Cons t ts)
  from Cons.prems have k: "fullKey ip t = k" and rest: "\<forall>t \<in> set ts. fullKey ip t = k"
    by simp_all
  show ?case
  proof (cases "L \<le> c")
    case True
    then have step: "checkRateLimit L ip kv t = (denied, kv\<lparr>ops := ops kv @ [Get k]\<rparr>)"
      using checkRateLimit_denied [of kv ip t L] Cons.prems(2) k by simp
    show ?thesis
    proof (cases i)
      case 0
      with True step show ?thesis by (simp add: fst_run_calls_Cons del: run_calls.simps)
    next
      case (Suc j)
      with Cons.prems have j: "j < length ts" by simp
      have "stored_count (kv\<lparr>ops := ops kv @ [Get k]\<rparr>) k = Num c"
        using Cons.prems(2) by simp
      from Cons.IH [OF rest this j] True Suc step show ?thesis
        by (simp add: fst_run_calls_Cons del: run_calls.simps)
    qed
  next
    case False
    then have lt: "c < L" by simp
    have step: "checkRateLimit L ip kv t =
           (admitted (L - c - 1),
            kv_put (kv\<lparr>ops := ops kv @ [Get k]\<rparr>) k (String_int (c + 1)) RATE_LIMIT_WINDOW)"
      using checkRateLimit_admitted [of kv ip t c L] Cons.prems(2) k lt by simp
    show ?thesis
    proof (cases i)
      case 0
      with lt step show ?thesis by (simp add: fst_run_calls_Cons del: run_calls.simps)
    next
      case (Suc j)
      with Cons.prems have j: "j < length ts" by simp
      have c': "stored_count (kv_put (kv\<lparr>ops := ops kv @ [Get k]\<rparr>) k (String_int (c + 1)) RATE_LIMIT_WINDOW) k
                  = Num (c + 1)"
        by (rule stored_count_put_same)
      have eq: "L - (c + 1) - int j - 1 = L - c - int (Suc j) - 1" by simp
      have le: "(L \<le> c + 1 + int j) = (L \<le> c + int (Suc j))" by auto
      from Cons.IH [OF rest c' j] step Suc show ?thesis
        by (simp add: fst_run_calls_Cons eq le del: of_nat_Suc run_calls.simps)
    qed
  qed
qed

section \<open>Sequences of calls\<close>

lemma run_calls_denied:
  assumes "js_ge (stored_count kv k) (Num L)" and "\<forall>t \<in> set ts. fullKey ip t = k"
  shows "fst (run_calls L ip kv ts) = map (\<lambda>_. denied) ts
       \<and> snd (run_calls L ip kv ts) = kv\<lparr>ops := ops kv @ map (\<lambda>_. Get k) ts\<rparr>"
  using assms
proof (induction ts arbitrary: kv)
  case Nil
  then show ?case by simp
next
  case (Cons t ts)
  from Cons.prems have k: "fullKey ip t = k" and rest: "\<forall>t \<in> set ts. fullKey ip t = k"
    by simp_all
  have step: "checkRateLimit L ip kv t = (denied, kv\<lparr>ops := ops kv @ [Get k]\<rparr>)"
    using checkRateLimit_denied [of kv ip t L] Cons.prems(1) k by simp
  have "js_ge (stored_count (kv\<lparr>ops := ops kv @ [Get k]\<rparr>) k) (Num L)"
    using Cons.prems(1) by simp
  from Cons.IH [OF this rest] step show ?case
    by (simp add: fst_run_calls_Cons snd_run_calls_Cons del: run_calls.simps)
qed

lemma checkRateLimit_store_other:
  "k \<noteq> fullKey ip t \<Longrightarrow> store (snd (checkRateLimit L ip kv t)) k = store kv k"
  by (simp add: checkRateLimit_def kv_get_def kv_put_def Let_def)

lemma run_calls_store_other:
  assumes "\<forall>t \<in> set ts. fullKey ip t \<noteq> k"
  shows "store (snd (run_calls L ip kv ts)) k = store kv k"
  using assms
proof (induction ts arbitrary: kv)
  case Nil
  then show ?case by simp
next
  case (Cons t ts)
  then have "store (snd (run_calls L ip (snd (checkRateLimit L ip kv t)) ts)) k
               = store (snd (checkRateLimit L ip kv t)) k"
    by simp
  also have "\<dots> = store kv k"
    using Cons.prems by (simp add: checkRateLimit_store_other [OF not_sym])
  finally show ?case by (simp add: snd_run_calls_Cons del: run_calls.simps)
qed

lemma checkRateLimit_fresh:
  assumes "store kv (fullKey ip t) = None"
  shows "fst (checkRateLimit L ip kv t) = (if 0 < L then admitted (L - 1) else denied)"
proof -
  have z: "stored_count kv (fullKey ip t) = Num 0"
    using assms by (simp add: stored_count_def count_of_def)
  show ?thesis
  proof (cases "0 < L")
    case True
    with checkRateLimit_admitted [OF z, of L] show ?thesis by simp
  next
    case False
    then have "js_ge (stored_count kv (fullKey ip t)) (Num L)" by (simp add: z)
    from checkRateLimit_denied [OF this] False show ?thesis by simp
  qed
qed

section \<open>The invariant of the stored counters\<close>

lemma counters_ok_stored_count:
  assumes "counters_ok L kv"
  shows "\<exists>c. stored_count kv k = Num c \<and> 0 \<le> c \<and> c \<le> L \<or> (store kv k = None \<and> stored_count kv k = Num 0)"
proof (cases "store kv k")
  case None
  then show ?thesis by (simp add: stored_count_def count_of_def)
next
  case (Some e)
  with assms obtain c where "entry_value e = String_int c" "1 \<le> c" "c \<le> L"
    unfolding counters_ok_def by blast
  with Some have "stored_count kv k = Num c \<and> 0 \<le> c \<and> c \<le> L"
    by (simp add: stored_count_def count_of_def String_int_not_Nil parseInt10_String_int)
  then show ?thesis by blast
qed

lemma counters_ok_put:
  assumes "counters_ok L kv" and "1 \<le> n" and "n \<le> L"
  shows "counters_ok L (kv_put kv k (String_int n) ttl)"
  unfolding counters_ok_def
proof (intro allI impI)
  fix k' e
  assume st: "store (kv_put kv k (String_int n) ttl) k' = Some e"
  show "\<exists>c. entry_value e = String_int c \<and> 1 \<le> c \<and> c \<le> L"
  proof (cases "k' = k")
    case True
    with st have "entry_value e = String_int n" by (auto simp: kv_put_def)
    with assms(2,3) show ?thesis by blast
  next
    case False
    with st have "store kv k' = Some e" by (simp add: kv_put_def)
    with assms(1) show ?thesis unfolding counters_ok_def by blast
  qed
qed

lemma counters_ok_ops: "counters_ok L (kv\<lparr>ops := x\<rparr>) = counters_ok L kv"
  by (simp add: counters_ok_def)

lemma counters_ok_step:
  assumes "counters_ok L kv"
  shows "counters_ok L (snd (checkRateLimit L ip kv t))"
proof -
  let ?k = "fullKey ip t"
  from counters_ok_stored_count [OF assms, of ?k]
  obtain c where c: "stored_count kv ?k = Num c" "0 \<le> c"
    by auto
  show ?thesis
  proof (cases "L \<le> c")
    case True
    then have "js_ge (stored_count kv ?k) (Num L)" by (simp add: c)
    from checkRateLimit_denied [OF this] assms show ?thesis
      by (simp add: counters_ok_ops)
  next
    case False
    then have "c < L" by simp
    moreover have "counters_ok L (kv_put (kv\<lparr>ops := ops kv @ [Get ?k]\<rparr>) ?k (String_int (c + 1)) RATE_LIMIT_WINDOW)"
      using assms c(2) \<open>c < L\<close> by (intro counters_ok_put) (simp_all add: counters_ok_ops)
    ultimately show ?thesis
      using checkRateLimit_admitted [OF c(1) \<open>c < L\<close>] by simp
  qed
qed

lemma counters_ok_run:
  "counters_ok L kv \<Longrightarrow> counters_ok L (run_requests L kv rs)"
proof (induction rs arbitrary: kv)
  case Nil
  then show ?case by simp
next
  case (Cons r rs)
  obtain ip t where r: "r = (ip, t)" by (cases r)
  from Cons.prems have "counters_ok L (snd (checkRateLimit L ip kv t))"
    by (rule counters_ok_step)
  from Cons.IH [OF this] r show ?case by simp
qed

section \<open>What the handlers fetch, and what they read of the request\<close>

lemma apiUrl_Beijing: "apiUrl ''Beijing'' k = beijing_url k"
  by (simp add: apiUrl_def beijing_url_def encodeURIComponent_def unreserved_def)

lemma city_of_absent: "map_of (searchParams request) ''city'' = None \<Longrightarrow> city_of request = ''Beijing''"
  by (simp add: city_of_def)

lemma city_of_empty: "map_of (searchParams request) ''city'' = Some [] \<Longrightarrow> city_of request = ''Beijing''"
  by (simp add: city_of_def)

lemma fetched_index:
  "snd (snd (fetch_index request env upstream t)) =
     (if allowed (fst (checkRateLimit RATE_LIMIT_index (getClientIP request)
                        (snd (kv_get (RATE_LIMIT_KV env) ''abc'')) t))
      then [apiUrl (city_of request) (WEATHER_API_KEY env)] else [])"
  by (simp add: fetch_index_def Let_def split_def split: sum.splits)

lemma fetched_forward_a:
  "snd (forward_a request origin k upstream) = [apiUrl (city_of request) k]"
  by (simp add: forward_a_def Let_def split: sum.splits)

lemma fetched_a:
  "snd (fetch_a request env upstream) =
     (if req_method request \<noteq> ''OPTIONS'' \<and> pathname request = ''/''
      then (case WEATHER_API_KEY_a env of
              KeyString k \<Rightarrow> if k \<noteq> [] then [apiUrl (city_of request) k] else []
            | SecretsStore (Inr k) \<Rightarrow> if k \<noteq> [] then [apiUrl (city_of request) k] else []
            | _ \<Rightarrow> [])
      else [])"
  by (simp add: fetch_a_def Let_def fetched_forward_a split: api_key_binding.splits sum.splits)

lemma fetched_b:
  "snd (snd (fetch_b request env upstream t)) =
     (if req_method request \<noteq> ''OPTIONS''
      then (case WEATHER_API_KEY_b env of
              Inr k \<Rightarrow>
                if k \<noteq> [] \<and> allowed (fst (checkRateLimit RATE_LIMIT_part_000 (getClientIP request)
                        (snd (kv_get (RATE_LIMIT_KV_b env) ''abc'')) t))
                then [apiUrl (city_of request) k] else []
            | Inl err \<Rightarrow> [])
      else [])"
  by (simp add: fetch_b_def Let_def split_def split: sum.splits)

lemma fetch_index_cong:
  assumes "req_headers r1 = req_headers r2" and "city_of r1 = city_of r2"
  shows "fetch_index r1 env upstream t = fetch_index r2 env upstream t"
  unfolding fetch_index_def getClientIP_def assms by (rule refl)

lemma fetch_a_cong:
  assumes "req_method r1 = req_method r2" and "pathname r1 = pathname r2"
    and "req_headers r1 = req_headers r2" and "city_of r1 = city_of r2"
  shows "fetch_a r1 env upstream = fetch_a r2 env upstream"
  unfolding fetch_a_def forward_a_def assms by (rule refl)

lemma fetch_b_cong:
  assumes "req_method r1 = req_method r2"
    and "req_headers r1 = req_headers r2" and "city_of r1 = city_of r2"
  shows "fetch_b r1 env upstream t = fetch_b r2 env upstream t"
  unfolding fetch_b_def getClientIP_def assms by (rule refl)

section \<open>The handlers on example inputs, and a failing upstream\<close>

text \<open>The handlers on the example inputs, computed.\<close>

lemmas eval_simps = kv_get_def kv_put_def checkRateLimit_def count_of_def empty_kv_def
  fullKey_def windowKey_def String_int_def string_of_nat.simps digit_char_def
  RATE_LIMIT_index_def RATE_LIMIT_part_000_def RATE_LIMIT_WINDOW_def getClientIP_def city_of_def
  apiUrl_def encodeURIComponent_def unreserved_def ok_def
  options_request_def get_request_def get_request_empty_city_def env_index_ex_def env_a_ex_def
  env_b_ex_def upstream_404_def upstream_200_def

lemma fetch_index_404: "fetch_index get_request env_index_ex upstream_404 0 =
   (\<lparr>status = 502, resp_headers = [], body = Text ''Weather API Error: 404''\<rparr>,
    \<lparr>store = [''rate_limit:203.0.113.7:0'' \<mapsto> \<lparr>entry_value = ''1'', expirationTtl = 60\<rparr>],
     ops = [Get ''abc'', Get ''rate_limit:203.0.113.7:0'', Put ''rate_limit:203.0.113.7:0'' ''1'' 60]\<rparr>,
    [beijing_url ''k1''])"
  by (simp add: fetch_index_def eval_simps beijing_url_def)

lemma fetch_b_404: "fetch_b get_request env_b_ex upstream_404 0 =
   (\<lparr>status = 502,
     resp_headers = getCorsHeaders None @ [(''Content-Type'', ''application/json'')],
     body = Json (JObj [(''error'', JStr msg_upstream_failed), (''status'', JNum 404)])\<rparr>,
    \<lparr>store = [''rate_limit:203.0.113.7:0'' \<mapsto> \<lparr>entry_value = ''1'', expirationTtl = 60\<rparr>],
     ops = [Get ''abc'', Get ''rate_limit:203.0.113.7:0'', Put ''rate_limit:203.0.113.7:0'' ''1'' 60]\<rparr>,
    [beijing_url ''k1''])"
  by (simp add: fetch_b_def eval_simps beijing_url_def)

lemma fetch_a_404: "fetch_a get_request env_a_ex upstream_404 =
   (\<lparr>status = 502,
     resp_headers = getCorsHeaders None @ [(''Content-Type'', ''application/json'')],
     body = Json (JObj [(''error'', JStr msg_upstream_failed), (''status'', JNum 404)])\<rparr>,
    [beijing_url ''k1''])"
  by (simp add: fetch_a_def forward_a_def eval_simps beijing_url_def)

lemma fetch_index_options: "fetch_index options_request env_index_ex upstream_200 0 =
   (\<lparr>status = 200,
     resp_headers = [(''Content-Type'', ''application/json''), (''X-RateLimit-Limit'', ''10''),
                    (''X-RateLimit-Remaining'', ''9'')],
     body = Json (JData ())\<rparr>,
    \<lparr>store = [''rate_limit:unknown:0'' \<mapsto> \<lparr>entry_value = ''1'', expirationTtl = 60\<rparr>],
     ops = [Get ''abc'', Get ''rate_limit:unknown:0'', Put ''rate_limit:unknown:0'' ''1'' 60]\<rparr>,
    [beijing_url ''k1''])"
  by (simp add: fetch_index_def eval_simps beijing_url_def)


lemma upstream_failure_index:
  assumes "upstream url = Inr resp" and "\<not> ok resp"
    and "snd (snd (fetch_index request env upstream t)) = [url]"
  shows "fst (fetch_index request env upstream t) =
           \<lparr>status = 502, resp_headers = [],
            body = Text (''Weather API Error: '' @ String_int (int (up_status resp)))\<rparr>"
  using assms
  by (auto simp: fetch_index_def Let_def split_def split: if_splits sum.splits)

lemma upstream_failure_forward_a:
  assumes "upstream url = Inr resp" and "\<not> ok resp"
    and "snd (forward_a request origin k upstream) = [url]"
  shows "fst (forward_a request origin k upstream) =
           \<lparr>status = 502,
            resp_headers = getCorsHeaders origin @ [(''Content-Type'', ''application/json'')],
            body = Json (JObj [(''error'', JStr msg_upstream_failed),
                               (''status'', JNum (int (up_status resp)))])\<rparr>"
  using assms
  by (auto simp: forward_a_def Let_def split: if_splits sum.splits)

lemma upstream_failure_a:
  assumes "upstream url = Inr resp" and "\<not> ok resp"
    and "snd (fetch_a request env upstream) = [url]"
  shows "fst (fetch_a request env upstream) =
           \<lparr>status = 502,
            resp_headers = getCorsHeaders (req_headers request ''Origin'')
                             @ [(''Content-Type'', ''application/json'')],
            body = Json (JObj [(''error'', JStr msg_upstream_failed),
                               (''status'', JNum (int (up_status resp)))])\<rparr>"
  using assms
    upstream_failure_forward_a [where upstream = upstream and url = url and resp = resp
      and request = request and origin = "req_headers request ''Origin''"]
  by (auto simp: fetch_a_def Let_def split: if_splits api_key_binding.splits sum.splits)

lemma upstream_failure_b:
  assumes "upstream url = Inr resp" and "\<not> ok resp"
    and "snd (snd (fetch_b request env upstream t)) = [url]"
  shows "fst (fetch_b request env upstream t) =
           \<lparr>status = 502,
            resp_headers = getCorsHeaders (req_headers request ''Origin'')
                             @ [(''Content-Type'', ''application/json'')],
            body = Json (JObj [(''error'', JStr msg_upstream_failed),
                               (''status'', JNum (int (up_status resp)))])\<rparr>"
  using assms
  by (auto simp: fetch_b_def Let_def split_def split: if_splits sum.splits)

lemma admitted_on_empty:
  "0 < L \<Longrightarrow> allowed (fst (checkRateLimit L ip (snd (kv_get empty_kv ''abc'')) t))"
  using checkRateLimit_fresh [of "snd (kv_get empty_kv ''abc'')" ip t L]
  by (simp add: kv_get_def empty_kv_def admitted_def)

section \<open>Properties of the rate limiter\<close>

text \<open>
  C1. Calls of one client, one after the other, at times of one window, on a store that
  has no counter for that client and window: the \<open>N\<close>-th call (counted from 1, with
  \<open>N\<close> up to the limit) is allowed with \<open>remaining = LIMIT - N\<close>, and the call after the
  limit is reached is denied with \<open>remaining = 0\<close>. The limit is any integer; the store may
  hold anything under other keys.
\<close>

theorem nth_call_in_window:
  assumes "\<forall>t \<in> set ts. windowKey t = windowKey t0"
    and "store kv (fullKey ip t0) = None"
  shows "(\<forall>N. 1 \<le> N \<and> int N \<le> L \<and> N \<le> length ts \<longrightarrow>
            fst (run_calls L ip kv ts) ! (N - 1) = \<lparr>allowed = True, remaining = Num (L - int N)\<rparr>)
       \<and> (0 \<le> L \<and> nat L + 1 \<le> length ts \<longrightarrow>
            fst (run_calls L ip kv ts) ! (nat L + 1 - 1) = \<lparr>allowed = False, remaining = Num 0\<rparr>)"
proof -
  let ?k = "fullKey ip t0"
  have keys: "\<forall>t \<in> set ts. fullKey ip t = ?k"
    using assms(1) by (simp add: fullKey_def)
  have zero: "stored_count kv ?k = Num 0"
    using assms(2) by (simp add: stored_count_def count_of_def)
  have nth: "\<And>i. i < length ts \<Longrightarrow> fst (run_calls L ip kv ts) ! i =
           (if L \<le> int i then denied else admitted (L - int i - 1))"
    using run_calls_counter [OF keys zero] by simp
  have a: "fst (run_calls L ip kv ts) ! (N - 1) = \<lparr>allowed = True, remaining = Num (L - int N)\<rparr>"
    if "1 \<le> N" "int N \<le> L" "N \<le> length ts" for N
  proof -
    from that have "N - 1 < length ts" and "\<not> L \<le> int (N - 1)" and "L - int (N - 1) - 1 = L - int N"
      by auto
    with nth [of "N - 1"] show ?thesis by (simp add: admitted_def)
  qed
  have b: "fst (run_calls L ip kv ts) ! (nat L + 1 - 1) = \<lparr>allowed = False, remaining = Num 0\<rparr>"
    if "0 \<le> L" "nat L + 1 \<le> length ts"
  proof -
    from that have "nat L < length ts" and "L \<le> int (nat L)" by auto
    with nth [of "nat L"] show ?thesis by (simp add: denied_def)
  qed
  from a b show ?thesis by blast
qed

theorem nth_call_in_window_witness:
  "windowKey 59999 = windowKey 0
   \<and> store empty_kv (fullKey ''203.0.113.7'' 0) = None
   \<and> fst (run_calls RATE_LIMIT_index ''203.0.113.7'' empty_kv (replicate 11 59999)) ! (4 - 1)
        = \<lparr>allowed = True, remaining = Num (RATE_LIMIT_index - 4)\<rparr>
   \<and> fst (run_calls RATE_LIMIT_index ''203.0.113.7'' empty_kv (replicate 11 59999))
        ! (nat RATE_LIMIT_index + 1 - 1) = \<lparr>allowed = False, remaining = Num 0\<rparr>"
proof -
  let ?ts = "replicate 11 (59999::int)"
  have w: "\<forall>t \<in> set ?ts. windowKey t = windowKey 0"
    by (simp add: windowKey_def RATE_LIMIT_WINDOW_def)
  have e: "store empty_kv (fullKey ''203.0.113.7'' 0) = None"
    by (simp add: empty_kv_def)
  note inst = nth_call_in_window [OF w e, of RATE_LIMIT_index]
  from inst have "1 \<le> (4::nat) \<and> int 4 \<le> RATE_LIMIT_index \<and> 4 \<le> length ?ts \<longrightarrow>
       fst (run_calls RATE_LIMIT_index ''203.0.113.7'' empty_kv ?ts) ! (4 - 1)
        = \<lparr>allowed = True, remaining = Num (RATE_LIMIT_index - int 4)\<rparr>"
    by blast
  then have a: "fst (run_calls RATE_LIMIT_index ''203.0.113.7'' empty_kv ?ts) ! (4 - 1)
        = \<lparr>allowed = True, remaining = Num (RATE_LIMIT_index - 4)\<rparr>"
    by (simp add: RATE_LIMIT_index_def del: run_calls.simps)
  from inst have "0 \<le> RATE_LIMIT_index \<and> nat RATE_LIMIT_index + 1 \<le> length ?ts \<longrightarrow>
       fst (run_calls RATE_LIMIT_index ''203.0.113.7'' empty_kv ?ts) ! (nat RATE_LIMIT_index + 1 - 1)
        = \<lparr>allowed = False, remaining = Num 0\<rparr>"
    by blast
  then have b: "fst (run_calls RATE_LIMIT_index ''203.0.113.7'' empty_kv ?ts)
        ! (nat RATE_LIMIT_index + 1 - 1) = \<lparr>allowed = False, remaining = Num 0\<rparr>"
    by (simp add: RATE_LIMIT_index_def del: run_calls.simps)
  have wk: "windowKey 59999 = windowKey 0"
    by (simp add: windowKey_def RATE_LIMIT_WINDOW_def)
  from wk e a b show ?thesis by (intro conjI)
qed

text \<open>
  C3. When the count read for the client's current key is at least the limit, the call
  is denied and only reads: the store is the one before, and the log grows by one
  \<open>Get\<close>. The same holds for any number of further calls in that window.
\<close>

theorem denied_call_writes_nothing:
  assumes "js_ge (stored_count kv (fullKey ip t)) (Num L)"
    and "\<forall>t' \<in> set ts. windowKey t' = windowKey t"
  shows "checkRateLimit L ip kv t =
           (\<lparr>allowed = False, remaining = Num 0\<rparr>, kv\<lparr>ops := ops kv @ [Get (fullKey ip t)]\<rparr>)
       \<and> fst (run_calls L ip kv ts) = map (\<lambda>_. \<lparr>allowed = False, remaining = Num 0\<rparr>) ts
       \<and> store (snd (run_calls L ip kv ts)) = store kv
       \<and> ops (snd (run_calls L ip kv ts)) = ops kv @ map (\<lambda>_. Get (fullKey ip t)) ts"
proof -
  have keys: "\<forall>t' \<in> set ts. fullKey ip t' = fullKey ip t"
    using assms(2) by (simp add: fullKey_def)
  from checkRateLimit_denied [OF assms(1)] run_calls_denied [OF assms(1) keys]
  show ?thesis by (simp add: denied_def)
qed


theorem denied_call_writes_nothing_witness:
  "js_ge (stored_count kv_full (fullKey ''203.0.113.7'' 0)) (Num RATE_LIMIT_index)
   \<and> windowKey 1000 = windowKey 0 \<and> windowKey 59999 = windowKey 0
   \<and> checkRateLimit RATE_LIMIT_index ''203.0.113.7'' kv_full 0 =
           (\<lparr>allowed = False, remaining = Num 0\<rparr>,
            kv_full\<lparr>ops := ops kv_full @ [Get (fullKey ''203.0.113.7'' 0)]\<rparr>)
   \<and> store (snd (run_calls RATE_LIMIT_index ''203.0.113.7'' kv_full [1000, 59999])) = store kv_full"
proof -
  have "parseInt10 ''10'' = Num 10"
    by (simp add: parseInt10_def ws1_def ws2_def ws3_def is_digit_def digits_value_def)
  then have h: "js_ge (stored_count kv_full (fullKey ''203.0.113.7'' 0)) (Num RATE_LIMIT_index)"
    by (simp add: stored_count_def count_of_def kv_full_def RATE_LIMIT_index_def)
  have w: "\<forall>t' \<in> set [1000, 59999]. windowKey t' = windowKey 0"
    by (simp add: windowKey_def RATE_LIMIT_WINDOW_def)
  have w1: "windowKey 1000 = windowKey 0" and w2: "windowKey 59999 = windowKey 0"
    by (simp_all add: windowKey_def RATE_LIMIT_WINDOW_def)
  note r = denied_call_writes_nothing [OF h w]
  from r have c1: "checkRateLimit RATE_LIMIT_index ''203.0.113.7'' kv_full 0 =
           (\<lparr>allowed = False, remaining = Num 0\<rparr>,
            kv_full\<lparr>ops := ops kv_full @ [Get (fullKey ''203.0.113.7'' 0)]\<rparr>)"
    by (rule conjunct1)
  from r have c2: "store (snd (run_calls RATE_LIMIT_index ''203.0.113.7'' kv_full [1000, 59999]))
      = store kv_full"
    by blast
  from h w1 w2 c1 c2 show ?thesis by (intro conjI)
qed

text \<open>
  C4. The key holds the window index, so the key of the next window is a different one:
  whatever is stored (or not) under the key of window \<open>w\<close>, and after any calls made in
  window \<open>w\<close>, a call in window \<open>w + 1\<close> whose own key is absent reads the count 0.
\<close>

theorem next_window_counts_from_zero:
  assumes "windowKey t' = windowKey t + 1"
    and "store kv (fullKey ip t') = None"
    and "\<forall>u \<in> set ts. windowKey u = windowKey t"
  shows "fullKey ip t' \<noteq> fullKey ip t
       \<and> stored_count (kv\<lparr>store := (store kv)(fullKey ip t := x)\<rparr>) (fullKey ip t') = Num 0
       \<and> fst (checkRateLimit L ip (kv\<lparr>store := (store kv)(fullKey ip t := x)\<rparr>) t') =
           (if 0 < L then \<lparr>allowed = True, remaining = Num (L - 1)\<rparr>
            else \<lparr>allowed = False, remaining = Num 0\<rparr>)
       \<and> fst (checkRateLimit L ip (snd (run_calls L ip kv ts)) t') =
           (if 0 < L then \<lparr>allowed = True, remaining = Num (L - 1)\<rparr>
            else \<lparr>allowed = False, remaining = Num 0\<rparr>)"
proof -
  have ne: "fullKey ip t' \<noteq> fullKey ip t"
    using fullKey_inj_window [of ip t' t] assms(1) by auto
  let ?kv = "kv\<lparr>store := (store kv)(fullKey ip t := x)\<rparr>"
  have absent: "store ?kv (fullKey ip t') = None"
    using ne assms(2) by simp
  then have z: "stored_count ?kv (fullKey ip t') = Num 0"
    by (simp add: stored_count_def count_of_def)
  have "\<forall>u \<in> set ts. fullKey ip u \<noteq> fullKey ip t'"
    using fullKey_inj_window [of ip _ t'] assms(1,3) by auto
  then have absent': "store (snd (run_calls L ip kv ts)) (fullKey ip t') = None"
    using run_calls_store_other [of ts ip "fullKey ip t'" L kv] assms(2) by simp
  from ne z checkRateLimit_fresh [OF absent, of L] checkRateLimit_fresh [OF absent', of L]
  show ?thesis by (simp add: admitted_def denied_def)
qed


theorem next_window_counts_from_zero_witness:
  "windowKey 60000 = windowKey 0 + 1
   \<and> store empty_kv (fullKey ''203.0.113.7'' 60000) = None
   \<and> windowKey 1000 = windowKey 0
   \<and> fst (checkRateLimit RATE_LIMIT_index ''203.0.113.7''
          (empty_kv\<lparr>store := (store empty_kv)(fullKey ''203.0.113.7'' 0 :=
              Some \<lparr>entry_value = ''10'', expirationTtl = 60\<rparr>)\<rparr>) 60000) =
        (if 0 < RATE_LIMIT_index then \<lparr>allowed = True, remaining = Num (RATE_LIMIT_index - 1)\<rparr>
         else \<lparr>allowed = False, remaining = Num 0\<rparr>)"
proof -
  have a: "windowKey 60000 = windowKey 0 + 1"
    by (simp add: windowKey_def RATE_LIMIT_WINDOW_def)
  have b: "store empty_kv (fullKey ''203.0.113.7'' 60000) = None"
    by (simp add: empty_kv_def)
  have c: "\<forall>u \<in> set [0, 1000]. windowKey u = windowKey 0"
    by (simp add: windowKey_def RATE_LIMIT_WINDOW_def)
  have c1: "windowKey 1000 = windowKey 0"
    by (simp add: windowKey_def RATE_LIMIT_WINDOW_def)
  from next_window_counts_from_zero [OF a b c, where L = RATE_LIMIT_index
      and x = "Some \<lparr>entry_value = ''10'', expirationTtl = 60\<rparr>"]
  have d: "fst (checkRateLimit RATE_LIMIT_index ''203.0.113.7''
          (empty_kv\<lparr>store := (store empty_kv)(fullKey ''203.0.113.7'' 0 :=
              Some \<lparr>entry_value = ''10'', expirationTtl = 60\<rparr>)\<rparr>) 60000) =
        (if 0 < RATE_LIMIT_index then \<lparr>allowed = True, remaining = Num (RATE_LIMIT_index - 1)\<rparr>
         else \<lparr>allowed = False, remaining = Num 0\<rparr>)"
    by blast
  from a b c1 d show ?thesis by (intro conjI)
qed

text \<open>
  C8. Starting from the empty store, after any sequence of calls (any clients, any
  times) every stored value is the decimal numeral of a count between 0 and the limit,
  and the limiter reads it back as that count.
\<close>

theorem stored_counters_bounded:
  "\<forall>k e. store (run_requests L empty_kv rs) k = Some e \<longrightarrow>
     (\<exists>c. entry_value e = String_number (Num c)
        \<and> count_of (Some (entry_value e)) = Num c \<and> 0 \<le> c \<and> c \<le> L)"
proof -
  have "counters_ok L empty_kv" by (simp add: counters_ok_def empty_kv_def)
  then have ok: "counters_ok L (run_requests L empty_kv rs)" by (rule counters_ok_run)
  show ?thesis
  proof (intro allI impI)
    fix k e
    assume "store (run_requests L empty_kv rs) k = Some e"
    with ok obtain c where "entry_value e = String_int c" "1 \<le> c" "c \<le> L"
      unfolding counters_ok_def by blast
    then have "entry_value e = String_number (Num c) \<and> count_of (Some (entry_value e)) = Num c
               \<and> 0 \<le> c \<and> c \<le> L"
      by (simp add: count_of_def String_int_not_Nil parseInt10_String_int)
    then show "\<exists>c. entry_value e = String_number (Num c)
        \<and> count_of (Some (entry_value e)) = Num c \<and> 0 \<le> c \<and> c \<le> L" ..
  qed
qed


theorem stored_counters_bounded_witness:
  "store (run_requests 1 empty_kv [(''a'', 0)]) (fullKey ''a'' 0)
     = Some \<lparr>entry_value = ''1'', expirationTtl = 60\<rparr>
   \<and> (\<exists>c. ''1'' = String_number (Num c) \<and> count_of (Some ''1'') = Num c \<and> 0 \<le> c \<and> c \<le> 1)"
proof -
  have s1: "String_int 1 = ''1''"
    by (simp add: String_int_def string_of_nat.simps digit_char_def)
  have st: "store (run_requests 1 empty_kv [(''a'', 0)]) (fullKey ''a'' 0)
     = Some \<lparr>entry_value = ''1'', expirationTtl = 60\<rparr>"
    by (simp add: checkRateLimit_def kv_get_def kv_put_def empty_kv_def count_of_def s1
        RATE_LIMIT_WINDOW_def)
  let ?e = "\<lparr>entry_value = ''1'', expirationTtl = 60\<rparr>"
  from stored_counters_bounded [of 1 "[(''a'', 0)]"]
  have "store (run_requests 1 empty_kv [(''a'', 0)]) (fullKey ''a'' 0) = Some ?e \<longrightarrow>
     (\<exists>c. entry_value ?e = String_number (Num c)
        \<and> count_of (Some (entry_value ?e)) = Num c \<and> 0 \<le> c \<and> c \<le> 1)"
    by blast
  with st show ?thesis by (simp del: run_requests.simps String_number.simps)
qed


text \<open>
  The stored value \<^verbatim>\<open>abc\<close> is not read as 0: \<^verbatim>\<open>parseInt\<close> gives \<^verbatim>\<open>NaN\<close>, the comparison with the
  limit is false, and the call is allowed with \<^verbatim>\<open>remaining = NaN\<close>, unlike a call that reads
  the count 0.
\<close>

theorem unparsable_count_counterexample:
  "count_of (Some ''abc'') = NaN
   \<and> fst (checkRateLimit RATE_LIMIT_index ''203.0.113.7''
          \<lparr>store = [fullKey ''203.0.113.7'' 0 \<mapsto> \<lparr>entry_value = ''abc'', expirationTtl = 60\<rparr>],
           ops = []\<rparr> 0)
       = \<lparr>allowed = True, remaining = NaN\<rparr>
   \<and> fst (checkRateLimit RATE_LIMIT_index ''203.0.113.7''
          \<lparr>store = [fullKey ''203.0.113.7'' 0 \<mapsto> \<lparr>entry_value = ''abc'', expirationTtl = 60\<rparr>],
           ops = []\<rparr> 0)
       \<noteq> fst (checkRateLimit RATE_LIMIT_index ''203.0.113.7''
          \<lparr>store = [fullKey ''203.0.113.7'' 0 \<mapsto> \<lparr>entry_value = ''0'', expirationTtl = 60\<rparr>],
           ops = []\<rparr> 0)"
proof -
  have p: "parseInt10 ''abc'' = NaN" "parseInt10 ''0'' = Num 0"
    by (simp_all add: parseInt10_def ws1_def ws2_def ws3_def is_digit_def digits_value_def)
  show ?thesis
    by (simp add: checkRateLimit_def kv_get_def count_of_def p RATE_LIMIT_index_def)
qed

text \<open>
  C2, as the code has it. A missing value and the empty string are read as the count 0.
  A non-empty value without a leading numeral is read as \<^verbatim>\<open>NaN\<close>: the comparison
  \<^verbatim>\<open>count >= RATE_LIMIT\<close> is false, the call is allowed with \<^verbatim>\<open>remaining = NaN\<close>, and the
  string \<^verbatim>\<open>NaN\<close> is written back.
\<close>

theorem read_step_count:
  "count_of None = Num 0
   \<and> count_of (Some []) = Num 0
   \<and> (map_option entry_value (store kv (fullKey ip t)) \<in> {None, Some []} \<longrightarrow>
        fst (checkRateLimit L ip kv t) =
          (if 0 < L then \<lparr>allowed = True, remaining = Num (L - 1)\<rparr>
           else \<lparr>allowed = False, remaining = Num 0\<rparr>))
   \<and> (v \<noteq> [] \<and> parseInt10 v = NaN \<longrightarrow> count_of (Some v) = NaN)
   \<and> (map_option entry_value (store kv (fullKey ip t)) = Some v \<and> v \<noteq> [] \<and> parseInt10 v = NaN \<longrightarrow>
        checkRateLimit L ip kv t =
          (\<lparr>allowed = True, remaining = NaN\<rparr>,
           kv_put (kv\<lparr>ops := ops kv @ [Get (fullKey ip t)]\<rparr>) (fullKey ip t) ''NaN''
             RATE_LIMIT_WINDOW))"
  by (auto simp: checkRateLimit_def kv_get_def count_of_def)

theorem read_step_count_witness:
  "''abc'' \<noteq> [] \<and> parseInt10 ''abc'' = NaN \<and> count_of (Some ''abc'') = NaN
   \<and> fst (checkRateLimit RATE_LIMIT_index ''203.0.113.7'' empty_kv 0) =
          (if 0 < RATE_LIMIT_index then \<lparr>allowed = True, remaining = Num (RATE_LIMIT_index - 1)\<rparr>
           else \<lparr>allowed = False, remaining = Num 0\<rparr>)"
proof -
  have p: "parseInt10 ''abc'' = NaN"
    by (simp add: parseInt10_def ws1_def ws2_def ws3_def is_digit_def digits_value_def)
  have e: "map_option entry_value (store empty_kv (fullKey ''203.0.113.7'' 0)) \<in> {None, Some []}"
    by (simp add: empty_kv_def)
  from read_step_count [of empty_kv "''203.0.113.7''" 0 RATE_LIMIT_index "''abc''"] p e
  show ?thesis by blast
qed

section \<open>Properties of the handlers\<close>

text \<open>
  A request to \<^verbatim>\<open>src/index.ts\<close> whose upstream fetch returns 404 gets status 502 with the
  text body \<^verbatim>\<open>Weather API Error: 404\<close>: a \<^verbatim>\<open>Text\<close>, not the \<^verbatim>\<open>JSON.stringify\<close> of an
  object with an \<^verbatim>\<open>error\<close> and a \<^verbatim>\<open>status\<close> field, and no \<^verbatim>\<open>Content-Type\<close> is set.
\<close>

theorem upstream_failure_json_counterexample:
  "upstream_404 (beijing_url ''k1'') =
     Inr \<lparr>up_status = 404, up_json = Inl \<lparr>err_name = ''SyntaxError'', err_message = []\<rparr>\<rparr>
   \<and> \<not> ok \<lparr>up_status = 404, up_json = Inl \<lparr>err_name = ''SyntaxError'', err_message = []\<rparr> :: js_error + unit\<rparr>
   \<and> snd (snd (fetch_index get_request env_index_ex upstream_404 0)) = [beijing_url ''k1'']
   \<and> fst (fetch_index get_request env_index_ex upstream_404 0) =
        \<lparr>status = 502, resp_headers = [], body = Text ''Weather API Error: 404''\<rparr>"
  by (simp add: fetch_index_404 upstream_404_def ok_def)

text \<open>
  C5, as the code has it. Whenever a handler has called the upstream (its list of
  fetched URLs is \<open>[url]\<close>) and the upstream answered with a status \<open>s\<close> that is not
  from 200 to 299, the response has status 502. In the two handlers of \<^verbatim>\<open>part_000\<close>
  the body is the JSON object with the fields \<^verbatim>\<open>error\<close> and \<^verbatim>\<open>status\<close>, the latter equal to
  \<open>s\<close>; in \<^verbatim>\<open>src/index.ts\<close> the body is the text \<^verbatim>\<open>Weather API Error: \<close> followed by \<open>s\<close>.
\<close>

theorem upstream_failure_is_502:
  assumes "upstream url = Inr resp" and "\<not> ok resp"
  shows "(snd (fetch_a request env_a upstream) = [url] \<longrightarrow>
            status (fst (fetch_a request env_a upstream)) = 502
          \<and> body (fst (fetch_a request env_a upstream)) =
              Json (JObj [(''error'', JStr msg_upstream_failed),
                          (''status'', JNum (int (up_status resp)))]))
       \<and> (snd (snd (fetch_b request env_b upstream t)) = [url] \<longrightarrow>
            status (fst (fetch_b request env_b upstream t)) = 502
          \<and> body (fst (fetch_b request env_b upstream t)) =
              Json (JObj [(''error'', JStr msg_upstream_failed),
                          (''status'', JNum (int (up_status resp)))]))
       \<and> (snd (snd (fetch_index request env_i upstream t)) = [url] \<longrightarrow>
            status (fst (fetch_index request env_i upstream t)) = 502
          \<and> body (fst (fetch_index request env_i upstream t)) =
              Text (''Weather API Error: '' @ String_int (int (up_status resp))))"
  using assms
    upstream_failure_a [where upstream = upstream and url = url and resp = resp
      and request = request and env = env_a]
    upstream_failure_b [where upstream = upstream and url = url and resp = resp
      and request = request and env = env_b and t = t]
    upstream_failure_index [where upstream = upstream and url = url and resp = resp
      and request = request and env = env_i and t = t]
  by simp


theorem upstream_failure_is_502_witness:
  "upstream_404 (beijing_url ''k1'') =
     Inr \<lparr>up_status = 404, up_json = Inl \<lparr>err_name = ''SyntaxError'', err_message = []\<rparr>\<rparr>
   \<and> \<not> ok \<lparr>up_status = 404, up_json = Inl \<lparr>err_name = ''SyntaxError'', err_message = []\<rparr> :: js_error + unit\<rparr>
   \<and> snd (fetch_a get_request env_a_ex upstream_404) = [beijing_url ''k1'']
   \<and> snd (snd (fetch_b get_request env_b_ex upstream_404 0)) = [beijing_url ''k1'']
   \<and> snd (snd (fetch_index get_request env_index_ex upstream_404 0)) = [beijing_url ''k1'']
   \<and> status (fst (fetch_a get_request env_a_ex upstream_404)) = 502
   \<and> body (fst (fetch_a get_request env_a_ex upstream_404)) =
        Json (JObj [(''error'', JStr msg_upstream_failed), (''status'', JNum 404)])
   \<and> status (fst (fetch_b get_request env_b_ex upstream_404 0)) = 502
   \<and> body (fst (fetch_b get_request env_b_ex upstream_404 0)) =
        Json (JObj [(''error'', JStr msg_upstream_failed), (''status'', JNum 404)])
   \<and> status (fst (fetch_index get_request env_index_ex upstream_404 0)) = 502"
proof -
  let ?resp = "\<lparr>up_status = 404, up_json = Inl \<lparr>err_name = ''SyntaxError'', err_message = []\<rparr> :: js_error + unit\<rparr>"
  have h1: "upstream_404 (beijing_url ''k1'') = Inr ?resp" by (simp add: upstream_404_def)
  have h2: "\<not> ok ?resp" by (simp add: ok_def)
  have fa: "snd (fetch_a get_request env_a_ex upstream_404) = [beijing_url ''k1'']"
    by (simp add: fetch_a_404)
  have fb: "snd (snd (fetch_b get_request env_b_ex upstream_404 0)) = [beijing_url ''k1'']"
    by (simp add: fetch_b_404)
  have fi: "snd (snd (fetch_index get_request env_index_ex upstream_404 0)) = [beijing_url ''k1'']"
    by (simp add: fetch_index_404)
  note r = upstream_failure_is_502 [where upstream = upstream_404 and url = "beijing_url ''k1''"
      and resp = ?resp and request = get_request and env_a = env_a_ex and env_b = env_b_ex
      and env_i = env_index_ex and t = 0, OF h1 h2]
  from r fa fb fi have
    "status (fst (fetch_a get_request env_a_ex upstream_404)) = 502"
    "body (fst (fetch_a get_request env_a_ex upstream_404)) =
        Json (JObj [(''error'', JStr msg_upstream_failed), (''status'', JNum (int (up_status ?resp)))])"
    "status (fst (fetch_b get_request env_b_ex upstream_404 0)) = 502"
    "body (fst (fetch_b get_request env_b_ex upstream_404 0)) =
        Json (JObj [(''error'', JStr msg_upstream_failed), (''status'', JNum (int (up_status ?resp)))])"
    "status (fst (fetch_index get_request env_index_ex upstream_404 0)) = 502"
    by blast+
  with h1 h2 fa fb fi show ?thesis by simp
qed

text \<open>
  The handler of \<^verbatim>\<open>src/index.ts\<close> has no branch for \<^verbatim>\<open>OPTIONS\<close>: such a request reads the
  store twice, writes the counter, calls the upstream and gets status 200 with the
  upstream's body.
\<close>

theorem preflight_index_counterexample:
  "req_method options_request = ''OPTIONS''
   \<and> status (fst (fetch_index options_request env_index_ex upstream_200 0)) = 200
   \<and> body (fst (fetch_index options_request env_index_ex upstream_200 0)) = Json (JData ())
   \<and> ops (fst (snd (fetch_index options_request env_index_ex upstream_200 0))) =
        [Get ''abc'', Get ''rate_limit:unknown:0'', Put ''rate_limit:unknown:0'' ''1'' 60]
   \<and> snd (snd (fetch_index options_request env_index_ex upstream_200 0)) = [beijing_url ''k1'']"
proof -
  have m: "req_method options_request = ''OPTIONS''" by (simp add: options_request_def)
  then show ?thesis by (simp add: fetch_index_options)
qed

text \<open>
  C6, as the code has it. In the two handlers of \<^verbatim>\<open>part_000\<close> a request whose verb is
  \<^verbatim>\<open>OPTIONS\<close> gets status 204, no body and the CORS headers; the store comes back as it
  was, its log of operations included (no read, no write), and no URL is fetched.
\<close>

theorem preflight_short_circuit:
  assumes "req_method request = ''OPTIONS''"
  shows "fetch_a request env_a upstream_a =
           (\<lparr>status = 204, resp_headers = getCorsHeaders (req_headers request ''Origin''),
             body = NoBody\<rparr>, [])
       \<and> fetch_b request env_b upstream_b t =
           (\<lparr>status = 204, resp_headers = getCorsHeaders (req_headers request ''Origin''),
             body = NoBody\<rparr>, RATE_LIMIT_KV_b env_b, [])"
  using assms by (simp add: fetch_a_def fetch_b_def)

theorem preflight_short_circuit_witness:
  "req_method options_request = ''OPTIONS''
   \<and> fetch_a options_request env_a_ex upstream_200 =
           (\<lparr>status = 204, resp_headers = getCorsHeaders (req_headers options_request ''Origin''),
             body = NoBody\<rparr>, [])
   \<and> fetch_b options_request env_b_ex upstream_200 0 =
           (\<lparr>status = 204, resp_headers = getCorsHeaders (req_headers options_request ''Origin''),
             body = NoBody\<rparr>, RATE_LIMIT_KV_b env_b_ex, [])"
proof -
  have m: "req_method options_request = ''OPTIONS''" by (simp add: options_request_def)
  from preflight_short_circuit [OF m, of env_a_ex upstream_200 env_b_ex upstream_200 0] m
  show ?thesis by (intro conjI) blast+
qed

text \<open>
  C7. The CORS headers: \<^verbatim>\<open>Access-Control-Allow-Origin\<close> is the request's origin exactly when
  that is one of the eight origins on 127.0.0.1 and localhost with the ports 3000, 5173,
  5500 and 8080, and \<^verbatim>\<open>*\<close> for any other origin and for none; the other three headers are
  constant, and there are no further ones.
\<close>

theorem cors_headers:
  "map_of (getCorsHeaders origin) ''Access-Control-Allow-Origin'' =
     Some (case origin of
             None \<Rightarrow> ''*''
           | Some og \<Rightarrow>
               if og \<in> {''http://127.0.0.1:3000'', ''http://localhost:3000'',
                         ''http://127.0.0.1:5173'', ''http://localhost:5173'',
                         ''http://127.0.0.1:5500'', ''http://localhost:5500'',
                         ''http://127.0.0.1:8080'', ''http://localhost:8080''}
               then og else ''*'')
   \<and> map_of (getCorsHeaders origin) ''Access-Control-Allow-Methods'' = Some ''GET, POST, OPTIONS''
   \<and> map_of (getCorsHeaders origin) ''Access-Control-Allow-Headers''
        = Some ''Content-Type, Authorization''
   \<and> map_of (getCorsHeaders origin) ''Access-Control-Max-Age'' = Some ''86400''
   \<and> map fst (getCorsHeaders origin) =
        [''Access-Control-Allow-Origin'', ''Access-Control-Allow-Methods'',
         ''Access-Control-Allow-Headers'', ''Access-Control-Max-Age'']"
proof (cases origin)
  case None
  then show ?thesis by (simp add: getCorsHeaders_def)
next
  case (Some og)
  then show ?thesis by (auto simp: getCorsHeaders_def allowedOrigins_def)
qed

theorem cors_headers_witness:
  "map_of (getCorsHeaders (Some ''http://localhost:5173'')) ''Access-Control-Allow-Origin''
     = Some ''http://localhost:5173''
   \<and> map_of (getCorsHeaders (Some ''http://evil.example'')) ''Access-Control-Allow-Origin''
     = Some ''*''
   \<and> map_of (getCorsHeaders None) ''Access-Control-Allow-Origin'' = Some ''*''
   \<and> map_of (getCorsHeaders None) ''Access-Control-Max-Age'' = Some ''86400''"
  using cors_headers [of "Some ''http://localhost:5173''"]
    cors_headers [of "Some ''http://evil.example''"] cors_headers [of None]
  by simp


text \<open>
  C9. For a \<^verbatim>\<open>GET\<close> request to \<^verbatim>\<open>/\<close> without a \<^verbatim>\<open>city\<close> parameter the city is \<^verbatim>\<open>Beijing\<close>,
  and every handler calls the upstream exactly when the request gets as far as the
  fetch (the key is resolved and not empty, the limiter admits the request), with the
  one URL whose query is \<^verbatim>\<open>q=Beijing\<close>: the percent-encoding of \<^verbatim>\<open>Beijing\<close> is itself.
\<close>

theorem default_city_is_Beijing:
  assumes "req_method request = ''GET''" and "pathname request = ''/''"
    and "map_of (searchParams request) ''city'' = None"
  shows "city_of request = ''Beijing''
       \<and> snd (snd (fetch_index request env_i upstream_i t)) =
           (if allowed (fst (checkRateLimit RATE_LIMIT_index (getClientIP request)
                              (snd (kv_get (RATE_LIMIT_KV env_i) ''abc'')) t))
            then [beijing_url (WEATHER_API_KEY env_i)] else [])
       \<and> snd (fetch_a request env_a upstream_a) =
           (case WEATHER_API_KEY_a env_a of
              KeyString k \<Rightarrow> if k \<noteq> [] then [beijing_url k] else []
            | SecretsStore (Inr k) \<Rightarrow> if k \<noteq> [] then [beijing_url k] else []
            | _ \<Rightarrow> [])
       \<and> snd (snd (fetch_b request env_b upstream_b t)) =
           (case WEATHER_API_KEY_b env_b of
              Inr k \<Rightarrow>
                if k \<noteq> [] \<and> allowed (fst (checkRateLimit RATE_LIMIT_part_000 (getClientIP request)
                        (snd (kv_get (RATE_LIMIT_KV_b env_b) ''abc'')) t))
                then [beijing_url k] else []
            | Inl err \<Rightarrow> [])"
proof -
  have c: "city_of request = ''Beijing''"
    using assms(3) by (rule city_of_absent)
  have i: "snd (snd (fetch_index request env_i upstream_i t)) =
           (if allowed (fst (checkRateLimit RATE_LIMIT_index (getClientIP request)
                              (snd (kv_get (RATE_LIMIT_KV env_i) ''abc'')) t))
            then [beijing_url (WEATHER_API_KEY env_i)] else [])"
    by (simp add: fetched_index c apiUrl_Beijing)
  have a: "snd (fetch_a request env_a upstream_a) =
           (case WEATHER_API_KEY_a env_a of
              KeyString k \<Rightarrow> if k \<noteq> [] then [beijing_url k] else []
            | SecretsStore (Inr k) \<Rightarrow> if k \<noteq> [] then [beijing_url k] else []
            | _ \<Rightarrow> [])"
    using assms(1,2)
    by (simp add: fetched_a c apiUrl_Beijing split: api_key_binding.splits sum.splits)
  have b: "snd (snd (fetch_b request env_b upstream_b t)) =
           (case WEATHER_API_KEY_b env_b of
              Inr k \<Rightarrow>
                if k \<noteq> [] \<and> allowed (fst (checkRateLimit RATE_LIMIT_part_000 (getClientIP request)
                        (snd (kv_get (RATE_LIMIT_KV_b env_b) ''abc'')) t))
                then [beijing_url k] else []
            | Inl err \<Rightarrow> [])"
    using assms(1) by (simp add: fetched_b c apiUrl_Beijing split: sum.splits)
  from c i a b show ?thesis by (intro conjI)
qed

theorem default_city_is_Beijing_witness:
  "req_method get_request = ''GET'' \<and> pathname get_request = ''/''
   \<and> map_of (searchParams get_request) ''city'' = None
   \<and> city_of get_request = ''Beijing''
   \<and> snd (snd (fetch_index get_request env_index_ex upstream_200 0)) = [beijing_url ''k1'']
   \<and> snd (fetch_a get_request env_a_ex upstream_200) = [beijing_url ''k1'']
   \<and> snd (snd (fetch_b get_request env_b_ex upstream_200 0)) = [beijing_url ''k1'']"
proof -
  have h: "req_method get_request = ''GET''" "pathname get_request = ''/''"
    "map_of (searchParams get_request) ''city'' = None"
    by (simp_all add: get_request_def)
  have ai: "allowed (fst (checkRateLimit RATE_LIMIT_index (getClientIP get_request)
                              (snd (kv_get (RATE_LIMIT_KV env_index_ex) ''abc'')) 0))"
    by (simp add: env_index_ex_def admitted_on_empty RATE_LIMIT_index_def)
  have ab: "allowed (fst (checkRateLimit RATE_LIMIT_part_000 (getClientIP get_request)
                              (snd (kv_get (RATE_LIMIT_KV_b env_b_ex) ''abc'')) 0))"
    by (simp add: env_b_ex_def admitted_on_empty RATE_LIMIT_part_000_def)
  have k: "WEATHER_API_KEY env_index_ex = ''k1''" "WEATHER_API_KEY_a env_a_ex = KeyString ''k1''"
    "WEATHER_API_KEY_b env_b_ex = Inr ''k1''"
    by (simp_all add: env_index_ex_def env_a_ex_def env_b_ex_def)
  note r = default_city_is_Beijing [OF h, of env_index_ex upstream_200 0 env_a_ex upstream_200
      env_b_ex upstream_200]
  from r have c: "city_of get_request = ''Beijing''" by (rule conjunct1)
  from r ai k have i: "snd (snd (fetch_index get_request env_index_ex upstream_200 0)) = [beijing_url ''k1'']"
    by simp
  from r k have a: "snd (fetch_a get_request env_a_ex upstream_200) = [beijing_url ''k1'']"
    by simp
  from r ab k have b: "snd (snd (fetch_b get_request env_b_ex upstream_200 0)) = [beijing_url ''k1'']"
    by simp
  from h c i a b show ?thesis by (intro conjI)
qed

text \<open>
  C10. A request whose \<^verbatim>\<open>city\<close> parameter is the empty string is answered as the same
  request without the parameter is: the city is \<^verbatim>\<open>Beijing\<close>, the URL is the one with
  \<^verbatim>\<open>q=Beijing\<close>, and each handler returns the same response, store and fetched URLs for
  the two requests.
\<close>

theorem empty_city_is_default:
  assumes "map_of (searchParams r1) ''city'' = Some []"
    and "map_of (searchParams r2) ''city'' = None"
    and "req_method r1 = req_method r2" and "pathname r1 = pathname r2"
    and "req_headers r1 = req_headers r2"
  shows "city_of r1 = ''Beijing''
       \<and> apiUrl (city_of r1) k = beijing_url k
       \<and> fetch_index r1 env_i upstream_i t = fetch_index r2 env_i upstream_i t
       \<and> fetch_a r1 env_a upstream_a = fetch_a r2 env_a upstream_a
       \<and> fetch_b r1 env_b upstream_b t = fetch_b r2 env_b upstream_b t"
proof -
  have c1: "city_of r1 = ''Beijing''" using assms(1) by (rule city_of_empty)
  have c2: "city_of r2 = ''Beijing''" using assms(2) by (rule city_of_absent)
  have c: "city_of r1 = city_of r2" by (simp add: c1 c2)
  have u: "apiUrl (city_of r1) k = beijing_url k" by (simp add: c1 apiUrl_Beijing)
  from c1 u fetch_index_cong [OF assms(5) c] fetch_a_cong [OF assms(3,4,5) c]
    fetch_b_cong [OF assms(3,5) c]
  show ?thesis by (intro conjI)
qed

theorem empty_city_is_default_witness:
  "map_of (searchParams get_request_empty_city) ''city'' = Some []
   \<and> map_of (searchParams get_request) ''city'' = None
   \<and> city_of get_request_empty_city = ''Beijing''
   \<and> fetch_index get_request_empty_city env_index_ex upstream_200 0
        = fetch_index get_request env_index_ex upstream_200 0
   \<and> fetch_a get_request_empty_city env_a_ex upstream_200
        = fetch_a get_request env_a_ex upstream_200
   \<and> fetch_b get_request_empty_city env_b_ex upstream_200 0
        = fetch_b get_request env_b_ex upstream_200 0"
proof -
  have h: "map_of (searchParams get_request_empty_city) ''city'' = Some []"
    "map_of (searchParams get_request) ''city'' = None"
    "req_method get_request_empty_city = req_method get_request"
    "pathname get_request_empty_city = pathname get_request"
    "req_headers get_request_empty_city = req_headers get_request"
    by (simp_all add: get_request_def get_request_empty_city_def)
  note r = empty_city_is_default [OF h, of "''k1''" env_index_ex upstream_200 0 env_a_ex upstream_200
      env_b_ex upstream_200]
  from r have "city_of get_request_empty_city = ''Beijing''"
    and "fetch_index get_request_empty_city env_index_ex upstream_200 0
        = fetch_index get_request env_index_ex upstream_200 0"
    and "fetch_a get_request_empty_city env_a_ex upstream_200
        = fetch_a get_request env_a_ex upstream_200"
    and "fetch_b get_request_empty_city env_b_ex upstream_200 0
        = fetch_b get_request env_b_ex upstream_200 0"
    by blast+
  with h(1,2) show ?thesis by (intro conjI)
qed

end
